theory Spec2Isabelle
  imports Main
begin

section \<open>The command-line adapter \<open>claude_wrapper.py\<close>\<close>

text \<open>
  The program is one function, \<open>main\<close>, of \<open>src/claude_wrapper.py\<close>:
  \<^verbatim>\<open>
  def main():
      if len(sys.argv) < 2:
          print("Error: No prompt provided", file=sys.stderr)
          sys.exit(1)
      prompt = sys.argv[1]
      try:
          client = ClaudeSDKClient()
          result = client.query(prompt)
          print(result)
      except Exception as e:
          print(f"Error: {str(e)}", file=sys.stderr)
          sys.exit(1)
  \<close>
  Its inputs are the argument list \<open>sys.argv\<close> (the program name first) and the behaviour
  of the imported class \<open>ClaudeSDKClient\<close> and of standard output; its effects are the
  text printed on the two streams, the calls made to the client, and the way the process
  ends.
\<close>

subsection \<open>Exceptions\<close>

text \<open>
  The handler of \<open>main\<close> is \<open>except Exception\<close>: it catches the instances of class
  \<open>Exception\<close> and of its subclasses and lets every other exception pass. \<open>sys.exit(1)\<close>
  raises \<open>SystemExit(1)\<close>, which derives from \<open>BaseException\<close> and not from \<open>Exception\<close>.
  An exception is therefore modelled by what the handler and the interpreter read of it:
  \<^item> \<open>Exception d\<close>: an instance of \<open>Exception\<close> (any subclass), where \<open>d\<close> is \<open>str(e)\<close>;
  \<^item> \<open>SystemExit a\<close>: an instance of \<open>SystemExit\<close> with the argument \<open>a\<close>, which is
    \<open>None\<close>, an integer, or any other object, given by its \<open>str\<close>.
  The other exceptions outside \<open>Exception\<close> (\<open>KeyboardInterrupt\<close>, \<open>GeneratorExit\<close>) pass the
  handler in the same way as \<open>SystemExit\<close>; they are left out because the traceback that the
  interpreter prints for them is not determined by this source.
\<close>

datatype exit_arg = NoCode | IntCode int | ObjectCode string

datatype py_exc = Exception string | SystemExit exit_arg

subsection \<open>The external client\<close>

text \<open>
  \<open>ClaudeSDKClient()\<close> either raises or returns a client object; \<open>client.query(prompt)\<close>
  either raises or returns the response. The response is modelled by the text that
  \<open>print\<close> writes for it. A raised exception is \<open>Inl\<close>, a returned value \<open>Inr\<close>.
\<close>

datatype client = Client (query: "string \<Rightarrow> py_exc + string")

type_synonym sdk = "py_exc + client"

subsection \<open>The observable state of a run\<close>

text \<open>
  The text written so far to standard output and to standard error, and the calls made to
  the external client, in order.
\<close>

datatype delegate_call = Construct | Query string

record process =
  stdout :: string
  stderr :: string
  calls :: "delegate_call list"

definition newline :: char where
  "newline = CHR 0x0A"

subsection \<open>Printing\<close>

text \<open>
  \<open>print(s)\<close> writes the text and the line terminator to \<open>sys.stdout\<close>, and the write can
  raise: \<open>UnicodeEncodeError\<close> when the encoding of the stream has no code for a character
  of the text, \<open>OSError\<close> when the descriptor refuses the bytes. Both are instances of
  \<open>Exception\<close>. What standard output does with a text is an input of the run:
  \<open>None\<close> when it takes the text, \<open>Some d\<close> when the write raises an instance of
  \<open>Exception\<close> whose \<open>str\<close> is \<open>d\<close> and nothing is written.
\<close>

type_synonym stream = "string \<Rightarrow> string option"

definition print_stdout :: "stream \<Rightarrow> string \<Rightarrow> process \<Rightarrow> py_exc + process" where
  "print_stdout sys_stdout s w =
     (case sys_stdout s of
        None \<Rightarrow> Inr (w\<lparr>stdout := stdout w @ s @ [newline]\<rparr>)
      | Some d \<Rightarrow> Inl (Exception d))"

text \<open>
  \<open>print(s, file=sys.stderr)\<close>. Standard error replaces a character it cannot encode by an
  escape (its error handler is \<open>backslashreplace\<close>) and the two messages of the program
  are written to it as they are; the write is taken to succeed.
\<close>

definition print_stderr :: "string \<Rightarrow> process \<Rightarrow> process" where
  "print_stderr s w = w\<lparr>stderr := stderr w @ s @ [newline]\<rparr>"

subsection \<open>The function \<open>main\<close>\<close>

text \<open>
  The body of the \<open>try\<close> statement (lines 19 to 23): the construction of the client, the
  query and \<open>print(result)\<close>, each of which can raise. The result is the state reached and
  \<open>None\<close> when the body ran to its end, \<open>Some e\<close> when a statement raised \<open>e\<close>.
\<close>

definition try_body :: "sdk \<Rightarrow> stream \<Rightarrow> string \<Rightarrow> process \<Rightarrow> process \<times> py_exc option" where
  "try_body ClaudeSDKClient sys_stdout prompt w =
     (let w1 = w\<lparr>calls := calls w @ [Construct]\<rparr> in
      case ClaudeSDKClient of
        Inl e \<Rightarrow> (w1, Some e)
      | Inr client \<Rightarrow>
          (let w2 = w1\<lparr>calls := calls w1 @ [Query prompt]\<rparr> in
           case query client prompt of
             Inl e \<Rightarrow> (w2, Some e)
           | Inr result \<Rightarrow>
               (case print_stdout sys_stdout result w2 of
                  Inl e \<Rightarrow> (w2, Some e)
                | Inr w3 \<Rightarrow> (w3, None))))"

text \<open>
  \<open>main\<close> (lines 10 to 27). \<open>None\<close>: the function returned; \<open>Some a\<close>: it ended with
  \<open>SystemExit(a)\<close>, which is \<open>SystemExit(1)\<close> for the two \<open>sys.exit(1)\<close> of the source and
  the exception of the delegate when that is a \<open>SystemExit\<close>, which the handler does not
  catch. An instance of \<open>Exception\<close> raised in the \<open>try\<close> body is caught.
\<close>

definition main :: "string list \<Rightarrow> sdk \<Rightarrow> stream \<Rightarrow> process \<Rightarrow> process \<times> exit_arg option" where
  "main argv ClaudeSDKClient sys_stdout w =
     (if length argv < 2
      then (print_stderr ''Error: No prompt provided'' w, Some (IntCode 1))
      else
        (let prompt = argv ! 1 in
         case try_body ClaudeSDKClient sys_stdout prompt w of
           (w', None) \<Rightarrow> (w', None)
         | (w', Some (Exception d)) \<Rightarrow> (print_stderr (''Error: '' @ d) w', Some (IntCode 1))
         | (w', Some (SystemExit a)) \<Rightarrow> (w', Some a)))"

subsection \<open>The process\<close>

text \<open>
  The interpreter runs \<open>main()\<close> as the last statement of the script. When \<open>main\<close> returns
  the process ends with status 0. When it ends with \<open>SystemExit(a)\<close> the interpreter
  (CPython, on a POSIX system with a 64-bit \<open>long\<close>) ends the process so:
  \<^item> \<open>a\<close> is \<open>None\<close>: status 0;
  \<^item> \<open>a\<close> is an integer \<open>n\<close>: \<open>n\<close> is read as a C \<open>long\<close>, which gives \<open>-1\<close> when \<open>n\<close> does
    not fit, and the parent sees the low eight bits: 2 gives 2, 256 gives 0, \<open>-1\<close> and
    \<open>2 ** 64\<close> give 255;
  \<^item> \<open>a\<close> is another object: its \<open>str\<close> is printed on standard error, status 1.
\<close>

definition exit_status_of_int :: "int \<Rightarrow> int" where
  "exit_status_of_int n = (if - (2 ^ 63) \<le> n \<and> n < 2 ^ 63 then n mod 256 else 255)"

fun handle_system_exit :: "exit_arg \<Rightarrow> process \<Rightarrow> process \<times> int" where
  "handle_system_exit NoCode w = (w, 0)"
| "handle_system_exit (IntCode n) w = (w, exit_status_of_int n)"
| "handle_system_exit (ObjectCode s) w = (print_stderr s w, 1)"

definition initial :: process where
  "initial = \<lparr>stdout = [], stderr = [], calls = []\<rparr>"

definition run :: "string list \<Rightarrow> sdk \<Rightarrow> stream \<Rightarrow> process \<times> int" where
  "run argv ClaudeSDKClient sys_stdout =
     (case main argv ClaudeSDKClient sys_stdout initial of
        (w, None) \<Rightarrow> (w, 0)
      | (w, Some a) \<Rightarrow> handle_system_exit a w)"

subsection \<open>Describing what the delegate does\<close>

text \<open>
  \<open>isinstance(e, Exception)\<close>: the test that the clause \<open>except Exception\<close> makes. The
  instances of \<open>Exception\<close> are the errors of Python; such an exception is called a fault
  below, and \<open>str(e)\<close> is its textual description.
\<close>

fun is_fault :: "py_exc \<Rightarrow> bool" where
  "is_fault (Exception d) = True"
| "is_fault (SystemExit a) = False"

text \<open>
  The delegate call (the construction of the client, then the query) raises a fault with
  textual description \<open>d\<close>: an instance of \<open>Exception\<close> whose \<open>str\<close> is \<open>d\<close>.
\<close>

definition raises_fault :: "sdk \<Rightarrow> string \<Rightarrow> string \<Rightarrow> bool" where
  "raises_fault ClaudeSDKClient prompt d =
     (case ClaudeSDKClient of
        Inl e \<Rightarrow> e = Exception d
      | Inr client \<Rightarrow> query client prompt = Inl (Exception d))"

text \<open>The delegate call returns the response \<open>r\<close>.\<close>

definition returns_result :: "sdk \<Rightarrow> string \<Rightarrow> string \<Rightarrow> bool" where
  "returns_result ClaudeSDKClient prompt r =
     (case ClaudeSDKClient of
        Inl e \<Rightarrow> False
      | Inr client \<Rightarrow> query client prompt = Inr r)"

text \<open>The delegate call returns a response or raises a fault.\<close>

definition returns_or_faults :: "sdk \<Rightarrow> string \<Rightarrow> bool" where
  "returns_or_faults ClaudeSDKClient prompt =
     (case ClaudeSDKClient of
        Inl e \<Rightarrow> is_fault e
      | Inr client \<Rightarrow>
          (case query client prompt of Inl e \<Rightarrow> is_fault e | Inr r \<Rightarrow> True))"

subsection \<open>Stubs for the examples\<close>

text \<open>
  Delegates: a client whose query returns \<open>r\<close> for every prompt, a client whose query
  raises \<open>e\<close> for every prompt, and a constructor that raises \<open>e\<close>.
\<close>

definition stub_returning :: "string \<Rightarrow> sdk" where
  "stub_returning r = Inr (Client (\<lambda>prompt. Inr r))"

definition stub_raising :: "py_exc \<Rightarrow> sdk" where
  "stub_raising e = Inr (Client (\<lambda>prompt. Inl e))"

definition stub_unconstructible :: "py_exc \<Rightarrow> sdk" where
  "stub_unconstructible e = Inl e"

text \<open>
  Standard outputs: one that takes every text (the characters of the model are the code
  points below 256, and UTF-8 encodes them all), and one with the ASCII encoding, where
  the write of a text with a character from 128 on raises \<open>UnicodeEncodeError\<close>, whose
  \<open>str\<close> is the argument \<open>d\<close>.
\<close>

definition utf8_stdout :: stream where
  "utf8_stdout s = None"

definition ascii_stdout :: "string \<Rightarrow> stream" where
  "ascii_stdout d s = (if list_all (\<lambda>c. (of_char c :: nat) < 128) s then None else Some d)"

text \<open>
  The \<open>str\<close> of the \<open>UnicodeEncodeError\<close> for the one-character text \<open>U+00E9\<close>:
  \<^verbatim>\<open>'ascii' codec can't encode character '\xe9' in position 0: ordinal not in range(128)\<close>
\<close>

definition cannot_encode_e9 :: string where
  "cannot_encode_e9 =
     [CHR 0x27] @ ''ascii'' @ [CHR 0x27] @ '' codec can'' @ [CHR 0x27]
     @ ''t encode character '' @ [CHR 0x27, CHR 0x5C] @ ''xe9'' @ [CHR 0x27]
     @ '' in position 0: ordinal not in range(128)''"

section \<open>Properties\<close>

lemmas run_defs =
  run_def main_def try_body_def print_stdout_def print_stderr_def initial_def

lemmas stub_defs =
  stub_returning_def stub_raising_def stub_unconstructible_def utf8_stdout_def ascii_stdout_def

lemma exit_status_of_int_small [simp]:
  "exit_status_of_int 0 = 0" "exit_status_of_int 1 = 1" "exit_status_of_int 2 = 2"
  by (simp_all add: exit_status_of_int_def)

lemma exit_status_of_int_wraps:
  "exit_status_of_int 256 = 0" "exit_status_of_int (- 1) = 255" "exit_status_of_int (2 ^ 64) = 255"
  by (simp_all add: exit_status_of_int_def)

lemma exit_status_of_int_range: "0 \<le> exit_status_of_int n \<and> exit_status_of_int n < 256"
  by (simp add: exit_status_of_int_def)

text \<open>The end of the process by \<open>SystemExit\<close> makes no call and writes nothing to standard output.\<close>

lemma handle_system_exit_keeps [simp]:
  "calls (fst (handle_system_exit a w)) = calls w"
  "stdout (fst (handle_system_exit a w)) = stdout w"
  by (cases a; simp add: print_stderr_def)+

text \<open>When it gives status 0, it has written nothing to standard error either.\<close>

lemma handle_system_exit_zero:
  "snd (handle_system_exit a w) = 0 \<Longrightarrow> stderr (fst (handle_system_exit a w)) = stderr w"
  by (cases a) simp_all

text \<open>
  When the query returns a response that standard output refuses, the handler reports the
  error of the write: nothing on standard output, the error line on standard error, exit
  code 1.
\<close>

lemma failing_print:
  assumes "2 \<le> length argv"
    and "returns_result ClaudeSDKClient (argv ! 1) r"
    and "sys_stdout r = Some d"
  shows "run argv ClaudeSDKClient sys_stdout =
           (\<lparr>stdout = [], stderr = ''Error: '' @ d @ [newline],
             calls = [Construct, Query (argv ! 1)]\<rparr>, 1)"
  using assms
  by (auto simp: run_defs returns_result_def Let_def split: sum.splits)

subsection \<open>Fault mapping\<close>

text \<open>
  C1. For every prompt argument, if the delegate call (the construction of the client or the
  query) raises a fault with textual description \<open>d\<close>, the program writes the single line
  \<open>Error: d\<close> (the text and its line terminator, as \<open>print\<close> writes it) to standard error,
  writes nothing to standard output, and ends with exit code 1.
\<close>

theorem fault_mapping:
  assumes "2 \<le> length argv"
    and "raises_fault ClaudeSDKClient (argv ! 1) d"
  shows "stderr (fst (run argv ClaudeSDKClient sys_stdout)) = ''Error: '' @ d @ [newline]
       \<and> stdout (fst (run argv ClaudeSDKClient sys_stdout)) = []
       \<and> snd (run argv ClaudeSDKClient sys_stdout) = 1"
  using assms
  by (auto simp: run_defs raises_fault_def Let_def split: sum.splits)

theorem fault_mapping_witness:
  "raises_fault (stub_raising (Exception ''rate limited'')) ''hi'' ''rate limited''
   \<and> stderr (fst (run [''claude_wrapper.py'', ''hi''] (stub_raising (Exception ''rate limited''))
         utf8_stdout))
       = ''Error: rate limited'' @ [newline]
   \<and> stdout (fst (run [''claude_wrapper.py'', ''hi''] (stub_raising (Exception ''rate limited''))
         utf8_stdout))
       = []
   \<and> snd (run [''claude_wrapper.py'', ''hi''] (stub_raising (Exception ''rate limited''))
         utf8_stdout) = 1"
proof -
  have h: "raises_fault (stub_raising (Exception ''rate limited''))
             ([''claude_wrapper.py'', ''hi''] ! 1) ''rate limited''"
    by (simp add: raises_fault_def stub_defs)
  show ?thesis
    using h fault_mapping [of "[''claude_wrapper.py'', ''hi'']", OF _ h, of utf8_stdout]
    by simp
qed

subsection \<open>Success\<close>

text \<open>
  C2, as stated: for every response \<open>r\<close> that the query returns, the program writes \<open>r\<close>
  and a newline to standard output, nothing to standard error, and ends with exit code 0.
  It does not when standard output refuses \<open>r\<close>: \<open>print(result)\<close> stands inside the \<open>try\<close>,
  so the \<open>UnicodeEncodeError\<close> of the write is caught by \<open>except Exception\<close>. With the
  response \<open>U+00E9\<close> and an ASCII standard output, nothing is written to standard output,
  the error is reported on standard error, and the exit code is 1.
\<close>

theorem success_passthrough_counterexample:
  "returns_result (stub_returning [CHR 0xE9]) ''hi'' [CHR 0xE9]
   \<and> stdout (fst (run [''claude_wrapper.py'', ''hi''] (stub_returning [CHR 0xE9])
         (ascii_stdout cannot_encode_e9))) = []
   \<and> stderr (fst (run [''claude_wrapper.py'', ''hi''] (stub_returning [CHR 0xE9])
         (ascii_stdout cannot_encode_e9))) = ''Error: '' @ cannot_encode_e9 @ [newline]
   \<and> snd (run [''claude_wrapper.py'', ''hi''] (stub_returning [CHR 0xE9])
         (ascii_stdout cannot_encode_e9)) = 1"
  by (simp add: run_defs stub_defs returns_result_def)

text \<open>
  C2, amended. For every prompt argument and every response \<open>r\<close> returned by the query
  whose write to standard output succeeds, the program writes \<open>r\<close> followed by one newline
  to standard output, writes nothing to standard error, and ends with exit code 0.
\<close>

theorem success_passthrough:
  assumes "2 \<le> length argv"
    and "returns_result ClaudeSDKClient (argv ! 1) r"
    and "sys_stdout r = None"
  shows "stdout (fst (run argv ClaudeSDKClient sys_stdout)) = r @ [newline]
       \<and> stderr (fst (run argv ClaudeSDKClient sys_stdout)) = []
       \<and> snd (run argv ClaudeSDKClient sys_stdout) = 0"
  using assms
  by (auto simp: run_defs returns_result_def Let_def split: sum.splits)

theorem success_passthrough_witness:
  "returns_result (stub_returning ''Hello, world!'') ''hi'' ''Hello, world!''
   \<and> ascii_stdout cannot_encode_e9 ''Hello, world!'' = None
   \<and> stdout (fst (run [''claude_wrapper.py'', ''hi''] (stub_returning ''Hello, world!'')
         (ascii_stdout cannot_encode_e9)))
       = ''Hello, world!'' @ [newline]
   \<and> stderr (fst (run [''claude_wrapper.py'', ''hi''] (stub_returning ''Hello, world!'')
         (ascii_stdout cannot_encode_e9))) = []
   \<and> snd (run [''claude_wrapper.py'', ''hi''] (stub_returning ''Hello, world!'')
         (ascii_stdout cannot_encode_e9)) = 0"
proof -
  have h: "returns_result (stub_returning ''Hello, world!'')
             ([''claude_wrapper.py'', ''hi''] ! 1) ''Hello, world!''"
    by (simp add: returns_result_def stub_defs)
  have a: "ascii_stdout cannot_encode_e9 ''Hello, world!'' = None"
    by (simp add: ascii_stdout_def)
  show ?thesis
    using h a success_passthrough [of "[''claude_wrapper.py'', ''hi'']"
        "stub_returning ''Hello, world!''" "''Hello, world!''" "ascii_stdout cannot_encode_e9"]
    by simp
qed

subsection \<open>Missing argument\<close>

text \<open>
  C3, as stated: with no element after the program name, standard error receives exactly
  the text \<open>Error: No prompt provided\<close>. It does not: \<open>print\<close> ends the line, so the
  stream receives the text and a newline.
\<close>

theorem missing_argument_counterexample:
  "stderr (fst (run [''claude_wrapper.py''] (stub_returning ''Hello, world!'') utf8_stdout))
     \<noteq> ''Error: No prompt provided''"
  by (simp add: run_defs)

text \<open>
  C3, amended. For every invocation whose argument list has fewer than one element after
  the program name, the program writes \<open>Error: No prompt provided\<close> followed by one newline
  to standard error, writes nothing to standard output, and ends with exit code 1.
\<close>

theorem missing_argument:
  assumes "length argv < 2"
  shows "stderr (fst (run argv ClaudeSDKClient sys_stdout))
           = ''Error: No prompt provided'' @ [newline]
       \<and> stdout (fst (run argv ClaudeSDKClient sys_stdout)) = []
       \<and> snd (run argv ClaudeSDKClient sys_stdout) = 1"
  using assms by (simp add: run_defs)

theorem missing_argument_witness:
  "stderr (fst (run [''claude_wrapper.py''] (stub_returning ''Hello, world!'') utf8_stdout))
     = ''Error: No prompt provided'' @ [newline]
   \<and> stdout (fst (run [''claude_wrapper.py''] (stub_returning ''Hello, world!'') utf8_stdout)) = []
   \<and> snd (run [''claude_wrapper.py''] (stub_returning ''Hello, world!'') utf8_stdout) = 1"
  using missing_argument [of "[''claude_wrapper.py'']" "stub_returning ''Hello, world!''"
      utf8_stdout]
  by simp

subsection \<open>The prompt reaches the query unchanged\<close>

text \<open>
  C4. For every string \<open>p\<close> supplied as the first prompt argument (the empty string and
  strings with blanks or punctuation among them), the string given to the query operation
  is \<open>p\<close> itself: the query is called once, with \<open>p\<close>, when the client is constructed, and
  the run depends on the client only through the value of its query at \<open>p\<close>.
\<close>

theorem argument_verbatim:
  "calls (fst (run (prog # p # rest) ClaudeSDKClient sys_stdout)) =
     Construct # (case ClaudeSDKClient of Inl e \<Rightarrow> [] | Inr client \<Rightarrow> [Query p])
   \<and> (query c p = query c' p \<longrightarrow>
        run (prog # p # rest) (Inr c) sys_stdout = run (prog # p # rest) (Inr c') sys_stdout)"
  by (simp add: run_defs Let_def split: sum.split py_exc.split option.split)

theorem argument_verbatim_witness:
  "calls (fst (run [''claude_wrapper.py'', '' a  b, c! ''] (stub_returning ''ok'') utf8_stdout)) =
     [Construct, Query '' a  b, c! '']
   \<and> run [''claude_wrapper.py'', '' a  b, c! '']
        (Inr (Client (\<lambda>q. if q = '' a  b, c! '' then Inr ''ok''
                          else Inl (SystemExit (IntCode 3))))) utf8_stdout
     = run [''claude_wrapper.py'', '' a  b, c! ''] (Inr (Client (\<lambda>q. Inr ''ok''))) utf8_stdout"
  using argument_verbatim [of "''claude_wrapper.py''" "'' a  b, c! ''" "[]"
      "stub_returning ''ok''" utf8_stdout
      "Client (\<lambda>q. if q = '' a  b, c! '' then Inr ''ok'' else Inl (SystemExit (IntCode 3)))"
      "Client (\<lambda>q. Inr ''ok'')"]
  by (simp add: stub_returning_def)

subsection \<open>Exit codes\<close>

text \<open>
  C5, as stated: for every behaviour of the delegate the process ends with exit code 0 or
  exit code 1. Returning a response and raising a fault are not all that a delegate can do:
  a query that raises \<open>SystemExit(2)\<close> (as \<open>sys.exit(2)\<close> does) is not caught by
  \<open>except Exception\<close>, and the process ends with exit code 2.
\<close>

theorem exit_code_counterexample:
  "snd (run [''claude_wrapper.py'', ''hi''] (stub_raising (SystemExit (IntCode 2))) utf8_stdout) = 2"
  by (simp add: run_defs stub_defs)

text \<open>
  C5, amended. For every argument list and every delegate whose call returns a response
  or raises a fault (an instance of \<open>Exception\<close>, of any kind), the process ends with exit
  code 0 or exit code 1. With fewer than one argument after the program name the delegate
  is not called, and nothing is asked of it.
\<close>

theorem exit_code_exhaustive:
  assumes "length argv < 2 \<or> returns_or_faults ClaudeSDKClient (argv ! 1)"
  shows "snd (run argv ClaudeSDKClient sys_stdout) = 0
       \<or> snd (run argv ClaudeSDKClient sys_stdout) = 1"
  using assms
  by (auto simp: run_defs returns_or_faults_def Let_def
      split: sum.splits py_exc.splits option.splits elim: is_fault.elims)

theorem exit_code_exhaustive_witness:
  "returns_or_faults (stub_unconstructible (Exception ''no credentials'')) ''hi''
   \<and> (snd (run [''claude_wrapper.py'', ''hi'']
              (stub_unconstructible (Exception ''no credentials'')) utf8_stdout) = 0
      \<or> snd (run [''claude_wrapper.py'', ''hi'']
              (stub_unconstructible (Exception ''no credentials'')) utf8_stdout) = 1)"
proof -
  have h: "returns_or_faults (stub_unconstructible (Exception ''no credentials''))
             ([''claude_wrapper.py'', ''hi''] ! 1)"
    by (simp add: returns_or_faults_def stub_defs)
  show ?thesis
    using h exit_code_exhaustive [of "[''claude_wrapper.py'', ''hi'']"
        "stub_unconstructible (Exception ''no credentials'')" utf8_stdout, OF disjI2, OF h]
    by simp
qed

subsection \<open>The two streams\<close>

text \<open>
  C6, as stated: in every invocation the output goes to exactly one of the two streams,
  standard output on a run that exits 0. It does not when the query raises
  \<open>SystemExit(0)\<close>: \<open>except Exception\<close> lets it pass, the process ends with exit code 0,
  and neither stream has received a byte.
\<close>

theorem one_stream_counterexample:
  "stdout (fst (run [''claude_wrapper.py'', ''hi''] (stub_raising (SystemExit (IntCode 0)))
      utf8_stdout)) = []
   \<and> stderr (fst (run [''claude_wrapper.py'', ''hi''] (stub_raising (SystemExit (IntCode 0)))
      utf8_stdout)) = []
   \<and> snd (run [''claude_wrapper.py'', ''hi''] (stub_raising (SystemExit (IntCode 0)))
      utf8_stdout) = 0"
  by (simp add: run_defs stub_defs)

text \<open>
  C6, amended. In every invocation at most one of the two streams receives bytes: a run
  that exits 0 writes nothing to standard error and a run that exits 1 writes nothing to
  standard output. When the argument is missing, or the delegate returns a response or
  raises a fault (an instance of \<open>Exception\<close>), exactly one stream receives bytes:
  standard output on a run that exits 0, standard error on a run that exits 1.
\<close>

theorem one_stream:
  "(stdout (fst (run argv ClaudeSDKClient sys_stdout)) = []
      \<or> stderr (fst (run argv ClaudeSDKClient sys_stdout)) = [])
   \<and> (snd (run argv ClaudeSDKClient sys_stdout) = 0 \<longrightarrow>
        stderr (fst (run argv ClaudeSDKClient sys_stdout)) = [])
   \<and> (snd (run argv ClaudeSDKClient sys_stdout) = 1 \<longrightarrow>
        stdout (fst (run argv ClaudeSDKClient sys_stdout)) = [])
   \<and> (length argv < 2 \<or> returns_or_faults ClaudeSDKClient (argv ! 1) \<longrightarrow>
        (snd (run argv ClaudeSDKClient sys_stdout) = 0
           \<and> stdout (fst (run argv ClaudeSDKClient sys_stdout)) \<noteq> []
           \<and> stderr (fst (run argv ClaudeSDKClient sys_stdout)) = [])
      \<or> (snd (run argv ClaudeSDKClient sys_stdout) = 1
           \<and> stderr (fst (run argv ClaudeSDKClient sys_stdout)) \<noteq> []
           \<and> stdout (fst (run argv ClaudeSDKClient sys_stdout)) = []))"
  by (auto simp: run_defs returns_or_faults_def Let_def handle_system_exit_zero
      split: sum.splits py_exc.splits option.splits elim: is_fault.elims)

theorem one_stream_witness:
  "returns_or_faults (stub_returning []) ''hi''
   \<and> snd (run [''claude_wrapper.py'', ''hi''] (stub_returning []) utf8_stdout) = 0
   \<and> stdout (fst (run [''claude_wrapper.py'', ''hi''] (stub_returning []) utf8_stdout)) \<noteq> []
   \<and> stderr (fst (run [''claude_wrapper.py'', ''hi''] (stub_returning []) utf8_stdout)) = []
   \<and> returns_or_faults (stub_raising (Exception [])) ''hi''
   \<and> snd (run [''claude_wrapper.py'', ''hi''] (stub_raising (Exception [])) utf8_stdout) = 1
   \<and> stderr (fst (run [''claude_wrapper.py'', ''hi''] (stub_raising (Exception [])) utf8_stdout))
       \<noteq> []
   \<and> stdout (fst (run [''claude_wrapper.py'', ''hi''] (stub_raising (Exception [])) utf8_stdout))
       = []"
proof -
  have h0: "returns_or_faults (stub_returning []) ([''claude_wrapper.py'', ''hi''] ! 1)"
    by (simp add: returns_or_faults_def stub_defs)
  have e0: "snd (run [''claude_wrapper.py'', ''hi''] (stub_returning []) utf8_stdout) = 0"
    by (simp add: run_defs stub_defs)
  have h1: "returns_or_faults (stub_raising (Exception [])) ([''claude_wrapper.py'', ''hi''] ! 1)"
    by (simp add: returns_or_faults_def stub_defs)
  have e1: "snd (run [''claude_wrapper.py'', ''hi''] (stub_raising (Exception [])) utf8_stdout) = 1"
    by (simp add: run_defs stub_defs)
  show ?thesis
    using h0 e0 h1 e1
      one_stream [of "[''claude_wrapper.py'', ''hi'']" "stub_returning []" utf8_stdout]
      one_stream [of "[''claude_wrapper.py'', ''hi'']" "stub_raising (Exception [])" utf8_stdout]
    by simp
qed

subsection \<open>The empty prompt\<close>

text \<open>
  C7. If the first prompt argument is supplied and is the empty string, the program accepts
  it: the run does not take the missing-argument branch, which makes no call, but goes on
  to the delegate call, and the query operation of the constructed client is called with
  the empty string.
\<close>

theorem empty_prompt_accepted:
  "calls (fst (run (prog # [] # rest) ClaudeSDKClient sys_stdout)) =
     Construct # (case ClaudeSDKClient of Inl e \<Rightarrow> [] | Inr client \<Rightarrow> [Query []])"
  by (simp add: run_defs Let_def split: sum.split py_exc.split option.split exit_arg.split)

subsection \<open>Failure formatting is deterministic\<close>

text \<open>
  C8. For two invocations with the same argument list in which the delegate raises faults
  with the same textual description, the bytes written to standard error and the exit
  codes are the same, whichever call raised the fault.
\<close>

theorem failure_formatting_deterministic:
  assumes "raises_fault sdk1 (argv ! 1) d"
    and "raises_fault sdk2 (argv ! 1) d"
  shows "stderr (fst (run argv sdk1 sys_stdout)) = stderr (fst (run argv sdk2 sys_stdout))
       \<and> snd (run argv sdk1 sys_stdout) = snd (run argv sdk2 sys_stdout)"
  using assms
  by (auto simp: run_defs raises_fault_def Let_def split: sum.splits)

theorem failure_formatting_deterministic_witness:
  "raises_fault (stub_unconstructible (Exception ''rate limited'')) ''hi'' ''rate limited''
   \<and> raises_fault (stub_raising (Exception ''rate limited'')) ''hi'' ''rate limited''
   \<and> stderr (fst (run [''claude_wrapper.py'', ''hi'']
         (stub_unconstructible (Exception ''rate limited'')) utf8_stdout))
       = stderr (fst (run [''claude_wrapper.py'', ''hi'']
         (stub_raising (Exception ''rate limited'')) utf8_stdout))
   \<and> snd (run [''claude_wrapper.py'', ''hi'']
         (stub_unconstructible (Exception ''rate limited'')) utf8_stdout)
       = snd (run [''claude_wrapper.py'', ''hi'']
         (stub_raising (Exception ''rate limited'')) utf8_stdout)"
proof -
  have h1: "raises_fault (stub_unconstructible (Exception ''rate limited''))
              ([''claude_wrapper.py'', ''hi''] ! 1) ''rate limited''"
    by (simp add: raises_fault_def stub_defs)
  have h2: "raises_fault (stub_raising (Exception ''rate limited''))
              ([''claude_wrapper.py'', ''hi''] ! 1) ''rate limited''"
    by (simp add: raises_fault_def stub_defs)
  show ?thesis
    using h1 h2 failure_formatting_deterministic [OF h1 h2, of utf8_stdout]
    by simp
qed

subsection \<open>Validation comes first\<close>

text \<open>
  C9. For every invocation with fewer than one argument after the program name, the
  external client is never constructed and its query operation is never called.
\<close>

theorem validation_first:
  assumes "length argv < 2"
  shows "calls (fst (run argv ClaudeSDKClient sys_stdout)) = []"
  using assms by (simp add: run_defs)

theorem validation_first_witness:
  "calls (fst (run [''claude_wrapper.py''] (stub_returning ''Hello, world!'') utf8_stdout)) = []"
  using validation_first [of "[''claude_wrapper.py'']" "stub_returning ''Hello, world!''"
      utf8_stdout]
  by simp

subsection \<open>Further arguments\<close>

text \<open>
  C10. For every invocation with two or more arguments after the program name, only the
  first is the prompt: the run (the calls to the delegate with their arguments, both
  streams and the exit code) is the run of the invocation with the first argument alone.
\<close>

theorem further_arguments_ignored:
  "run (prog # p # a # rest) ClaudeSDKClient sys_stdout = run [prog, p] ClaudeSDKClient sys_stdout
   \<and> calls (fst (run (prog # p # a # rest) ClaudeSDKClient sys_stdout)) =
       Construct # (case ClaudeSDKClient of Inl e \<Rightarrow> [] | Inr client \<Rightarrow> [Query p])"
  by (simp add: run_defs Let_def split: sum.split py_exc.split option.split exit_arg.split)

end
